theory Spec2Isabelle
  imports Complex_Main
begin

section \<open>Data model\<close>

text \<open>
  Modelled from the spec: the enum \<open>Role\<close> of \<open>src.database.models\<close> is not among the
  sources; the spec gives its members as admin, moderator and user.
\<close>

datatype role = Role_admin | Role_moderator | Role_user

text \<open>
  Modelled from the spec: the enum \<open>Action\<close> of \<open>src.schemas.users\<close> is not among the
  sources; the spec gives the action surface as ban, activate and change_role.
\<close>

datatype action = Action_ban | Action_activate | Action_change_role

text \<open>
  Modelled from the spec: the class \<open>User\<close> of \<open>src.database.models\<close> is not among the
  sources. The record holds the columns that the functions below read or assign:
  \<open>user.username\<close>, \<open>user.email\<close>, \<open>user.roles\<close> and \<open>user.is_active\<close>.
\<close>

record user =
  username :: string
  email :: string
  roles :: role
  is_active :: bool

text \<open>
  The request body of registration (\<open>UserModel\<close>): \<open>body.model_dump()\<close> supplies the
  columns that the caller chooses; every other column takes its default.
\<close>

record user_model =
  body_username :: string
  body_email :: string

text \<open>
  Modelled from the spec: the class \<open>Rating\<close> is not among the sources; the spec gives
  it the composite identity (user, picture) and an integer value.
\<close>

record rating =
  rating_user_id :: int
  rating_picture_id :: int
  rate :: int

text \<open>
  An \<open>AsyncSession\<close> is modelled by the rows it sees: the users table, the table of
  invalidated tokens (one string per row) and the ratings table, each in table order.
  An assignment to a loaded row or \<open>db.add\<close>, followed by \<open>db.commit\<close>, is one step that
  either lands or raises; \<open>db.rollback\<close> restores the committed rows, which here is the
  session as it was. \<open>store_down\<close> is the environment: when it holds, the store cannot
  be reached and every commit raises.
\<close>

record session =
  users :: "user list"
  invalid_tokens :: "string list"
  ratings :: "rating list"
  store_down :: bool

text \<open>
  The text of a response or of an exception. The table behind \<open>messages.get_message\<close>
  is not among the sources, so a looked-up text is kept as its key:
  \<open>Message k\<close> is \<open>messages.get_message(k)\<close>, \<open>Named n k\<close> is
  \<open>f"{n} " + messages.get_message(k)\<close>, \<open>With_role k r\<close> is
  \<open>messages.get_message(k) + f" {r}"\<close> and \<open>Literal s\<close> is the string \<open>s\<close> itself.
\<close>

datatype detail =
  Message string
| Named string string
| With_role string "role option"
| Literal string

text \<open>
  What a call can raise: \<open>HTTPException(status_code, detail)\<close>; the exceptions of the
  store, which the repository functions re-raise as they are; Python's
  \<open>AttributeError\<close>, raised when a module is asked for a name that it does not define;
  and \<open>NotFound\<close>, the error kind with which the repository functions that are
  modelled from the spec fail when the entity they are asked for is absent.
\<close>

datatype error =
  HTTPException nat detail
| MultipleResultsFound
| IntegrityError
| OperationalError
| AttributeError
| NotFound

definition HTTP_400_BAD_REQUEST :: nat where
  "HTTP_400_BAD_REQUEST = 400"

definition HTTP_401_UNAUTHORIZED :: nat where
  "HTTP_401_UNAUTHORIZED = 401"

definition HTTP_404_NOT_FOUND :: nat where
  "HTTP_404_NOT_FOUND = 404"

text \<open>The dictionary \<open>{"user": ..., "detail": ...}\<close> that \<open>manage_user\<close> returns.\<close>

record response =
  response_user :: "user option"
  response_detail :: detail

text \<open>
  A parameter with a default value: the caller leaves it out or supplies a value.
\<close>

datatype 'a arg = Omitted | Supplied 'a

definition default_arg :: "'a \<Rightarrow> 'a arg \<Rightarrow> 'a" where
  "default_arg d a = (case a of Omitted \<Rightarrow> d | Supplied v \<Rightarrow> v)"


section \<open>Python and SQLAlchemy primitives\<close>

text \<open>
  The truth value of an enum member: a member of an \<open>Enum\<close> is true, and a member of an
  enum mixed with \<open>str\<close> is true when its value is a non-empty string, which the three
  role names are.
\<close>

definition truthy :: "role \<Rightarrow> bool" where
  "truthy r = True"

text \<open>\<open>a or b\<close> evaluates to \<open>a\<close> when \<open>a\<close> is true and to \<open>b\<close> otherwise.\<close>

definition py_or :: "role \<Rightarrow> role \<Rightarrow> role" where
  "py_or a b = (if truthy a then a else b)"

text \<open>\<open>Result.scalar_one_or_none()\<close>: no row is None, one row is that row, more raise.\<close>

definition scalar_one_or_none :: "'a list \<Rightarrow> error + 'a option" where
  "scalar_one_or_none rows =
     (case rows of
        [] \<Rightarrow> Inr None
      | [x] \<Rightarrow> Inr (Some x)
      | _ # _ # _ \<Rightarrow> Inl MultipleResultsFound)"

text \<open>
  An assignment to an attribute of the row that \<open>.first()\<close> returned: the first row
  that satisfies the filter is replaced.
\<close>

fun update_first :: "('a \<Rightarrow> bool) \<Rightarrow> ('a \<Rightarrow> 'a) \<Rightarrow> 'a list \<Rightarrow> 'a list" where
  "update_first p f [] = []"
| "update_first p f (x # xs) = (if p x then f x # xs else x # update_first p f xs)"

text \<open>\<open>redis_client.delete(key)\<close> on the cache, a dictionary from keys to entries.\<close>

definition redis_delete :: "string \<Rightarrow> (string \<rightharpoonup> string) \<Rightarrow> (string \<rightharpoonup> string)" where
  "redis_delete key redis_client = redis_client(key := None)"


section \<open>repository/users.py\<close>

definition get_user_by_email :: "string \<Rightarrow> session \<Rightarrow> user option" where
  "get_user_by_email mail db = List.find (\<lambda>u. email u = mail) (users db)"

text \<open>
  \<open>scalar_one_or_none\<close> never raises \<open>NoResultFound\<close>, so the handler of
  \<open>get_user_username\<close> catches nothing and \<open>MultipleResultsFound\<close> leaves the function.
\<close>

definition get_user_username :: "string \<Rightarrow> session \<Rightarrow> error + user option" where
  "get_user_username name db =
     scalar_one_or_none (filter (\<lambda>u. username u = name) (users db))"

text \<open>
  Modelled from the spec: the column defaults of \<open>User\<close> are declared in the absent
  \<open>src.database.models\<close>; the spec has the role default to user and an account start
  in the state Active.
\<close>

definition default_roles :: role where
  "default_roles = Role_user"

definition default_is_active :: bool where
  "default_is_active = True"

text \<open>
  Modelled from the spec: the uniqueness constraints of the tables are declared in the
  absent \<open>src.database.models\<close>; the spec has \<open>email\<close> and \<open>username\<close> unique among
  users and the token string unique among invalidated tokens. A commit that would insert
  a second row with the same value raises \<open>IntegrityError\<close>.
\<close>

definition user_insert_ok :: "user \<Rightarrow> session \<Rightarrow> bool" where
  "user_insert_ok u db =
     (email u \<notin> set (map email (users db)) \<and> username u \<notin> set (map username (users db)))"

definition token_insert_ok :: "string \<Rightarrow> session \<Rightarrow> bool" where
  "token_insert_ok token db = (token \<notin> set (invalid_tokens db))"

text \<open>
  \<open>create_user\<close>: \<open>select(User).limit(1)\<close> is the first row of the table or None. The
  avatar comes from an external service and is not modelled. The commit is not guarded:
  what it raises leaves the function, and nothing has been inserted.
\<close>

definition create_user :: "user_model \<Rightarrow> session \<Rightarrow> (error + user) \<times> session" where
  "create_user body db =
     (let existing_user = (case users db of [] \<Rightarrow> None | u # _ \<Rightarrow> Some u);
          new_user =
            (if existing_user = None
             then \<lparr>username = body_username body, email = body_email body,
                   roles = Role_admin, is_active = default_is_active\<rparr>
             else \<lparr>username = body_username body, email = body_email body,
                   roles = default_roles, is_active = default_is_active\<rparr>)
      in if store_down db then (Inl OperationalError, db)
         else if \<not> user_insert_ok new_user db then (Inl IntegrityError, db)
         else (Inr new_user, db\<lparr>users := users db @ [new_user]\<rparr>))"

definition ban_user :: "string \<Rightarrow> session \<Rightarrow> (error + user option) \<times> session" where
  "ban_user mail db =
     (case get_user_by_email mail db of
        Some u \<Rightarrow>
          if store_down db then (Inl OperationalError, db)
          else (Inr (Some (u\<lparr>is_active := False\<rparr>)),
                db\<lparr>users := update_first (\<lambda>x. email x = mail)
                                (\<lambda>x. x\<lparr>is_active := False\<rparr>) (users db)\<rparr>)
      | None \<Rightarrow> (Inr None, db))"

definition activate_user :: "string \<Rightarrow> session \<Rightarrow> (error + user option) \<times> session" where
  "activate_user mail db =
     (case get_user_by_email mail db of
        Some u \<Rightarrow>
          if store_down db then (Inl OperationalError, db)
          else (Inr (Some (u\<lparr>is_active := True\<rparr>)),
                db\<lparr>users := update_first (\<lambda>x. email x = mail)
                                (\<lambda>x. x\<lparr>is_active := True\<rparr>) (users db)\<rparr>)
      | None \<Rightarrow> (Inr None, db))"

text \<open>
  \<open>manage_user\<close> calls \<open>repository_users.change_role\<close>, and \<open>repository/users.py\<close>
  defines no function of that name: the module is asked for a name that it does not
  have, which raises \<open>AttributeError\<close> before anything is called. No row is read,
  changed or committed.
\<close>

definition change_role :: "string \<Rightarrow> role \<Rightarrow> session \<Rightarrow> (error + user option) \<times> session" where
  "change_role mail new_role db = (Inl AttributeError, db)"

text \<open>
  \<open>invalidate_token\<close>: add the row and commit; whatever the commit raises is rolled back
  and raised again, unchanged. The function returns nothing.
\<close>

definition invalidate_token :: "string \<Rightarrow> session \<Rightarrow> (error + unit) \<times> session" where
  "invalidate_token token db =
     (if store_down db then (Inl OperationalError, db)
      else if \<not> token_insert_ok token db then (Inl IntegrityError, db)
      else (Inr (), db\<lparr>invalid_tokens := invalid_tokens db @ [token]\<rparr>))"

text \<open>
  \<open>is_validate_token\<close> executes one SELECT and neither adds, assigns nor commits, so the
  session is an argument only.
\<close>

definition is_validate_token :: "string \<Rightarrow> session \<Rightarrow> error + bool" where
  "is_validate_token token db =
     (case scalar_one_or_none (filter (\<lambda>t. t = token) (invalid_tokens db)) of
        Inl e \<Rightarrow> Inl e
      | Inr invalid_token \<Rightarrow> (if invalid_token \<noteq> None then Inr True else Inr False))"



section \<open>routes/users.py\<close>

text \<open>
  \<open>manage_user\<close>, the handler of \<open>PATCH /{username}\<close>. Its arguments are the path
  parameter, the action, the optional role (default \<open>Role.user\<close>), the acting user, the
  cache client and the session; its result is the response or the exception raised,
  with the cache and the session as the call leaves them. The variable \<open>role\<close> of the
  body is a role or None. The dependency \<open>admin_moderator\<close> of the route runs before the
  handler and belongs to a module that is not among the sources; the handler is what is
  embedded here.
\<close>

definition manage_user ::
  "string \<Rightarrow> action \<Rightarrow> role option arg \<Rightarrow> user \<Rightarrow> (string \<rightharpoonup> string) \<Rightarrow> session
     \<Rightarrow> (error + response) \<times> (string \<rightharpoonup> string) \<times> session" where
  "manage_user name action role_arg current_user redis_client db =
     (let role = default_arg (Some Role_user) role_arg in
      case get_user_username name db of
        Inl e \<Rightarrow> (Inl e, redis_client, db)
      | Inr None \<Rightarrow>
          (Inl (HTTPException HTTP_404_NOT_FOUND (Message ''USER_NOT_FOUND'')), redis_client, db)
      | Inr (Some user_action) \<Rightarrow>
          (let key_to_clear = ''user:'' @ email user_action;
               redis_client = redis_delete key_to_clear redis_client
           in
           if username user_action = username current_user then
             (Inr \<lparr>response_user = Some user_action,
                   response_detail = Message ''YOU_CANT_BAN_YOURSELF''\<rparr>, redis_client, db)
           else if action = Action_ban then
             (if roles current_user = py_or Role_admin Role_moderator then
                (if is_active user_action then
                   (if username user_action = username current_user then
                      (Inr \<lparr>response_user = Some user_action,
                            response_detail = Message ''YOU_CANT_BAN_YOURSELF''\<rparr>,
                       redis_client, db)
                    else
                      (case ban_user (email user_action) db of
                         (Inl e, db') \<Rightarrow> (Inl e, redis_client, db')
                       | (Inr u, db') \<Rightarrow>
                           (Inr \<lparr>response_user = u,
                                 response_detail =
                                   Named (username user_action) ''USER_HAS_BEEN_BANNED''\<rparr>,
                            redis_client, db')))
                 else
                   (Inl (HTTPException HTTP_400_BAD_REQUEST (Message ''USER_HAS_ALREADY_BANNED'')),
                    redis_client, db))
              else
                (Inl (HTTPException HTTP_401_UNAUTHORIZED
                        (Message ''YOU_DONT_HAVE_PERMISSION_TO_BAN_USERS'')),
                 redis_client, db))
           else if action = Action_activate then
             (if roles current_user = Role_admin then
                (if \<not> is_active user_action then
                   (case activate_user (email user_action) db of
                      (Inl e, db') \<Rightarrow> (Inl e, redis_client, db')
                    | (Inr u, db') \<Rightarrow>
                        (Inr \<lparr>response_user = u,
                              response_detail =
                                Named (username user_action) ''USER_HAS_BEEN_ACTIVATED''\<rparr>,
                         redis_client, db'))
                 else
                   (Inl (HTTPException HTTP_400_BAD_REQUEST (Message ''USER_ALREADY_ACTIVATED'')),
                    redis_client, db))
              else
                (Inl (HTTPException HTTP_401_UNAUTHORIZED
                        (Message ''YOU_DONT_HAVE_PERMISSION_FOR_ACTIVATE_USERS'')),
                 redis_client, db))
           else if action = Action_change_role then
             (if roles current_user = Role_admin then
                (case role of
                   None \<Rightarrow>
                     (Inl (HTTPException HTTP_400_BAD_REQUEST
                             (Message ''NEW_ROLE_MUST_BE_SPECIFIED_FOR_CHANGING_ROLE'')),
                      redis_client, db)
                 | Some new_role \<Rightarrow>
                     (case change_role (email user_action) new_role db of
                        (Inl e, db') \<Rightarrow> (Inl e, redis_client, db')
                      | (Inr u, db') \<Rightarrow>
                          (Inr \<lparr>response_user = u,
                                response_detail =
                                  With_role ''USERS_ROLE_HAS_BEEN_CHANGED_TO'' role\<rparr>,
                           redis_client, db')))
              else
                (Inl (HTTPException HTTP_401_UNAUTHORIZED
                        (Message ''YOU_DONT_HAVE_PERMISSION_FOR_CHANGE_USER_ROLES'')),
                 redis_client, db))
           else
             (Inl (HTTPException HTTP_400_BAD_REQUEST (Message ''INVALID_ACTION_SPECIFIED'')),
              redis_client, db)))"


section \<open>routes/rating.py\<close>

text \<open>The mean and the number of the ratings of a picture; the mean may be None.\<close>

record average_rating =
  average :: "rat option"
  count :: nat

text \<open>
  Modelled from the spec: \<open>repository_rating.picture_ratings\<close> is not among the sources.
  The spec has it compute the arithmetic mean of all rating values of the picture and
  return count 0 with a null mean when the picture has no rating, which is not an error.
  The floating-point quotient is idealised as a rational. The result is an object with
  two entries, which Python takes for true.
\<close>

definition repository_rating_picture_ratings :: "int \<Rightarrow> session \<Rightarrow> average_rating option" where
  "repository_rating_picture_ratings picture_id db =
     (let values = map rate (filter (\<lambda>r. rating_picture_id r = picture_id) (ratings db))
      in Some \<lparr>average =
                 (if values = [] then None
                  else Some (of_int (sum_list values) / of_int (int (length values)))),
               count = length values\<rparr>)"

definition picture_ratings :: "int \<Rightarrow> session \<Rightarrow> error + average_rating" where
  "picture_ratings picture_id db =
     (case repository_rating_picture_ratings picture_id db of
        None \<Rightarrow> Inl (HTTPException HTTP_404_NOT_FOUND (Literal ''Picture not found!''))
      | Some picture \<Rightarrow> Inr picture)"

text \<open>
  Modelled from the spec: \<open>repository_rating.remove_rating\<close> is not among the sources.
  The spec has the removal delete the rating of the pair and give the deleted rating
  back, and fail with \<open>NotFound\<close> if the pair has no rating; then nothing is deleted.
  The commit follows the other repository functions.
\<close>

definition repository_rating_remove_rating ::
  "int \<Rightarrow> int \<Rightarrow> session \<Rightarrow> (error + rating option) \<times> session" where
  "repository_rating_remove_rating picture_id user_id db =
     (case List.find (\<lambda>r. rating_picture_id r = picture_id \<and> rating_user_id r = user_id)
             (ratings db) of
        None \<Rightarrow> (Inl NotFound, db)
      | Some r \<Rightarrow>
          if store_down db then (Inl OperationalError, db)
          else (Inr (Some r), db\<lparr>ratings := remove1 r (ratings db)\<rparr>))"

text \<open>
  The route \<open>remove_photo_rating\<close>: what the repository raises leaves the route as it
  is; a result that Python takes for false is answered with the status 400.
\<close>

definition remove_photo_rating :: "int \<Rightarrow> int \<Rightarrow> session \<Rightarrow> (error + rating) \<times> session" where
  "remove_photo_rating picture_id user_id db =
     (case repository_rating_remove_rating picture_id user_id db of
        (Inl e, db') \<Rightarrow> (Inl e, db')
      | (Inr None, db') \<Rightarrow> (Inl (HTTPException 400 (Literal ''Unable to delete rating'')), db')
      | (Inr (Some deleted_rating), db') \<Rightarrow> (Inr deleted_rating, db'))"



section \<open>Notions used to state the properties\<close>

text \<open>
  The registry after a sequence of calls of \<open>invalidate_token\<close>, one per token of the
  list, in order; a call that raises leaves the registry as it was.
\<close>

fun revoke_all :: "string list \<Rightarrow> session \<Rightarrow> session" where
  "revoke_all [] db = db"
| "revoke_all (token # tokens) db = revoke_all tokens (snd (invalidate_token token db))"

text \<open>
  An error is typed for the caller when it is an \<open>HTTPException\<close>, which carries a
  status code; the exceptions of the store are not.
\<close>

definition is_http_exception :: "error \<Rightarrow> bool" where
  "is_http_exception e = (case e of HTTPException c d \<Rightarrow> True | _ \<Rightarrow> False)"

subsection \<open>Sample data\<close>

definition alice :: user where
  "alice = \<lparr>username = ''alice'', email = ''alice@example.com'',
             roles = Role_admin, is_active = True\<rparr>"

definition mia :: user where
  "mia = \<lparr>username = ''mia'', email = ''mia@example.com'',
           roles = Role_moderator, is_active = True\<rparr>"

definition bob :: user where
  "bob = \<lparr>username = ''bob'', email = ''bob@example.com'',
           roles = Role_moderator, is_active = True\<rparr>"

definition carol :: user where
  "carol = \<lparr>username = ''carol'', email = ''carol@example.com'',
             roles = Role_user, is_active = True\<rparr>"

definition dave :: user_model where
  "dave = \<lparr>body_username = ''dave'', body_email = ''dave@example.com''\<rparr>"

definition empty_store :: session where
  "empty_store = \<lparr>users = [], invalid_tokens = [], ratings = [], store_down = False\<rparr>"

definition store0 :: session where
  "store0 = \<lparr>users = [alice, mia, bob, carol], invalid_tokens = [''t1''],
              ratings = [\<lparr>rating_user_id = 7, rating_picture_id = 3, rate = 4\<rparr>],
              store_down = False\<rparr>"

definition cache0 :: "string \<rightharpoonup> string" where
  "cache0 = [''user:bob@example.com'' \<mapsto> ''bob'']"


section \<open>Properties\<close>

lemmas http_defs = HTTP_400_BAD_REQUEST_def HTTP_401_UNAUTHORIZED_def HTTP_404_NOT_FOUND_def

lemmas sample_defs = alice_def mia_def bob_def carol_def dave_def empty_store_def store0_def
  cache0_def

lemmas repo_defs = get_user_username_def get_user_by_email_def scalar_one_or_none_def
  ban_user_def activate_user_def change_role_def redis_delete_def default_arg_def py_or_def
  truthy_def

subsection \<open>The moderation handler\<close>

text \<open>A row that the lookup by username returns carries that username.\<close>

lemma get_user_username_name:
  assumes "get_user_username name db = Inr (Some t)"
  shows "username t = name"
proof -
  from assms have "filter (\<lambda>u. username u = name) (users db) = [t]"
    by (auto simp: get_user_username_def scalar_one_or_none_def split: list.splits)
  then have "t \<in> set (filter (\<lambda>u. username u = name) (users db))"
    by simp
  then show ?thesis
    by simp
qed

text \<open>
  The first test after the lookup and the cache deletion compares the usernames of the
  target and of the acting user; when they agree the handler returns at once.
\<close>

lemma manage_user_self:
  assumes "get_user_username name db = Inr (Some target)"
    and "username target = username current_user"
  shows "manage_user name action role_arg current_user redis_client db =
     (Inr \<lparr>response_user = Some target,
           response_detail = Message ''YOU_CANT_BAN_YOURSELF''\<rparr>,
      redis_delete (''user:'' @ email target) redis_client, db)"
  using assms by (simp add: manage_user_def Let_def)

text \<open>
  The ban branch. An admin who bans an active user other than themself succeeds when
  the store is reachable: the first row with the email of the target, which is the
  target itself, is stored with \<open>is_active = False\<close>. A moderator is refused, whatever
  the state of the target.
\<close>

lemma ban_by_admin:
  assumes "get_user_username name db = Inr (Some target)"
    and "username target \<noteq> username current_user"
    and "roles current_user = Role_admin"
    and "is_active target"
    and "get_user_by_email (email target) db = Some target"
    and "\<not> store_down db"
  shows "manage_user name Action_ban role_arg current_user redis_client db =
     (Inr \<lparr>response_user = Some (target\<lparr>is_active := False\<rparr>),
           response_detail = Named (username target) ''USER_HAS_BEEN_BANNED''\<rparr>,
      redis_delete (''user:'' @ email target) redis_client,
      db\<lparr>users := update_first (\<lambda>x. email x = email target)
                      (\<lambda>x. x\<lparr>is_active := False\<rparr>) (users db)\<rparr>)"
  using assms by (simp add: manage_user_def Let_def ban_user_def py_or_def truthy_def)

lemma ban_by_moderator_refused:
  assumes "get_user_username name db = Inr (Some target)"
    and "username target \<noteq> username current_user"
    and "roles current_user = Role_moderator"
  shows "manage_user name Action_ban role_arg current_user redis_client db =
     (Inl (HTTPException HTTP_401_UNAUTHORIZED
             (Message ''YOU_DONT_HAVE_PERMISSION_TO_BAN_USERS'')),
      redis_delete (''user:'' @ email target) redis_client, db)"
  using assms by (simp add: manage_user_def Let_def py_or_def truthy_def)

text \<open>
  Claim C1 (ban by an admin or a moderator). The claim asks that a moderator who bans
  an active user other than themself succeeds. The handler tests
  \<open>current_user.roles == (Role.admin or Role.moderator)\<close>, and \<open>Role.admin or
  Role.moderator\<close> is \<open>Role.admin\<close>: the moderator \<open>mia\<close>, banning the active user
  \<open>carol\<close>, is answered with 401 and \<open>carol\<close> stays active.
\<close>

theorem ban_by_moderator_unauthorized:
  "roles mia = Role_moderator \<and> is_active carol \<and> username carol \<noteq> username mia \<and>
   get_user_username ''carol'' store0 = Inr (Some carol) \<and>
   fst (manage_user ''carol'' Action_ban Omitted mia cache0 store0) =
     Inl (HTTPException 401 (Message ''YOU_DONT_HAVE_PERMISSION_TO_BAN_USERS'')) \<and>
   snd (snd (manage_user ''carol'' Action_ban Omitted mia cache0 store0)) = store0"
  by (simp add: manage_user_def Let_def sample_defs repo_defs http_defs)

text \<open>
  Against claim C2: the moderator \<open>mia\<close> asks to activate \<open>bob\<close>, which only an admin
  may do, and the admin \<open>alice\<close> asks to activate \<open>bob\<close>, who is active already. The
  first call ends in 401 and the second in 400; neither commits anything, and after
  each the cache entry of \<open>bob\<close>, present before, is gone.
\<close>

theorem cache_deleted_without_commit:
  "cache0 ''user:bob@example.com'' = Some ''bob'' \<and>
   fst (manage_user ''bob'' Action_activate Omitted mia cache0 store0) =
     Inl (HTTPException 401 (Message ''YOU_DONT_HAVE_PERMISSION_FOR_ACTIVATE_USERS'')) \<and>
   snd (snd (manage_user ''bob'' Action_activate Omitted mia cache0 store0)) = store0 \<and>
   fst (snd (manage_user ''bob'' Action_activate Omitted mia cache0 store0))
     ''user:bob@example.com'' = None \<and>
   fst (manage_user ''bob'' Action_activate Omitted alice cache0 store0) =
     Inl (HTTPException 400 (Message ''USER_ALREADY_ACTIVATED'')) \<and>
   snd (snd (manage_user ''bob'' Action_activate Omitted alice cache0 store0)) = store0 \<and>
   fst (snd (manage_user ''bob'' Action_activate Omitted alice cache0 store0))
     ''user:bob@example.com'' = None"
  by (simp add: manage_user_def Let_def sample_defs repo_defs http_defs)

text \<open>
  Claim C2, amended (when the cache entry is deleted). For every action, role argument
  and acting user, the cache after the call is fixed by the lookup of the target alone:
  when the target is found the entry keyed by its email is deleted, before the
  self-action test, the role and state tests and the commit, hence on every branch,
  whatever the call returns or raises; when the lookup finds nobody or raises, the
  cache is as it was.
\<close>

theorem manage_user_cache:
  "fst (snd (manage_user name action role_arg current_user redis_client db)) =
     (case get_user_username name db of
        Inr (Some target) \<Rightarrow> redis_delete (''user:'' @ email target) redis_client
      | _ \<Rightarrow> redis_client)"
  by (simp add: manage_user_def Let_def split: sum.splits option.splits prod.splits)

theorem manage_user_cache_witness:
  "fst (snd (manage_user ''bob'' Action_activate Omitted mia cache0
               (store0\<lparr>store_down := True\<rparr>))) = Map.empty \<and>
   fst (snd (manage_user ''eve'' Action_ban Omitted alice cache0 store0)) = cache0"
proof -
  have "fst (snd (manage_user ''bob'' Action_activate Omitted mia cache0
                    (store0\<lparr>store_down := True\<rparr>))) = Map.empty"
    using manage_user_cache [of "''bob''" Action_activate Omitted mia cache0
        "store0\<lparr>store_down := True\<rparr>"]
    by (simp add: sample_defs repo_defs)
  moreover have "fst (snd (manage_user ''eve'' Action_ban Omitted alice cache0 store0)) = cache0"
    using manage_user_cache [of "''eve''" Action_ban Omitted alice cache0 store0]
    by (simp add: sample_defs repo_defs)
  ultimately show ?thesis
    by simp
qed

text \<open>
  Claim C5 (change_role without a role). The claim asks that a change of role with the
  role left out fails with 400 and leaves the role of the target as it was. The
  parameter has the default \<open>Role.user\<close>, so the test \<open>role is None\<close> does not see the
  omission: when the admin \<open>alice\<close> changes the role of the moderator \<open>bob\<close> without
  naming a role, the handler does not raise the 400 of
  \<open>NEW_ROLE_MUST_BE_SPECIFIED_FOR_CHANGING_ROLE\<close> but goes on to
  \<open>repository_users.change_role\<close>, where \<open>AttributeError\<close> is raised, which is not an
  \<open>HTTPException\<close>. The session is as it was, so \<open>bob\<close> keeps his role.
\<close>

theorem change_role_omitted_not_bad_request:
  "roles alice = Role_admin \<and> roles bob = Role_moderator \<and>
   manage_user ''bob'' Action_change_role Omitted alice cache0 store0 =
     (Inl AttributeError, Map.empty, store0) \<and>
   \<not> is_http_exception AttributeError"
  by (simp add: manage_user_def Let_def sample_defs repo_defs http_defs is_http_exception_def)

text \<open>The test itself works when None reaches it: a caller that passes None gets 400.\<close>

lemma change_role_none_bad_request:
  "manage_user ''bob'' Action_change_role (Supplied None) alice cache0 store0 =
     (Inl (HTTPException 400 (Message ''NEW_ROLE_MUST_BE_SPECIFIED_FOR_CHANGING_ROLE'')),
      Map.empty, store0)"
  by (simp add: manage_user_def Let_def sample_defs repo_defs http_defs)

text \<open>
  Claim C7 (ban of oneself). When the request names the acting user and the lookup
  finds the row, a ban returns the response \<open>YOU_CANT_BAN_YOURSELF\<close>, which is not an
  error, and the session is returned as it was, so \<open>is_active\<close> and \<open>roles\<close> of the
  target are unchanged. Neither the role of the acting user nor the state of the target
  occurs in the assumption: the test comes before every test of role or state.
\<close>

theorem ban_self_noop:
  assumes "get_user_username (username current_user) db = Inr (Some target)"
  shows "manage_user (username current_user) Action_ban role_arg current_user redis_client db =
     (Inr \<lparr>response_user = Some target,
           response_detail = Message ''YOU_CANT_BAN_YOURSELF''\<rparr>,
      redis_delete (''user:'' @ email target) redis_client, db)"
  using assms get_user_username_name [OF assms] by (simp add: manage_user_self)

theorem ban_self_noop_witness:
  "get_user_username (username mia) store0 = Inr (Some mia) \<and>
   manage_user (username mia) Action_ban Omitted mia cache0 store0 =
     (Inr \<lparr>response_user = Some mia,
           response_detail = Message ''YOU_CANT_BAN_YOURSELF''\<rparr>,
      redis_delete (''user:'' @ email mia) cache0, store0)"
proof -
  have h: "get_user_username (username mia) store0 = Inr (Some mia)"
    by (simp add: sample_defs repo_defs)
  from ban_self_noop [OF h] h show ?thesis
    by simp
qed

text \<open>
  Claim C10 (the self-action test covers every action). For each of the three actions,
  when the lookup finds the target and its username is that of the acting user, the
  handler returns the response \<open>YOU_CANT_BAN_YOURSELF\<close> and the session as it was: no
  row is changed, and no role or state is consulted.
\<close>

theorem self_guard_every_action:
  assumes "get_user_username name db = Inr (Some target)"
    and "username target = username current_user"
  shows "manage_user name action role_arg current_user redis_client db =
     (Inr \<lparr>response_user = Some target,
           response_detail = Message ''YOU_CANT_BAN_YOURSELF''\<rparr>,
      redis_delete (''user:'' @ email target) redis_client, db)"
  using assms by (rule manage_user_self)

theorem self_guard_every_action_witness:
  "get_user_username ''alice'' store0 = Inr (Some alice) \<and>
   username alice = username alice \<and>
   manage_user ''alice'' Action_change_role (Supplied (Some Role_user)) alice cache0 store0 =
     (Inr \<lparr>response_user = Some alice,
           response_detail = Message ''YOU_CANT_BAN_YOURSELF''\<rparr>,
      redis_delete (''user:'' @ email alice) cache0, store0) \<and>
   manage_user ''alice'' Action_activate Omitted alice cache0 store0 =
     (Inr \<lparr>response_user = Some alice,
           response_detail = Message ''YOU_CANT_BAN_YOURSELF''\<rparr>,
      redis_delete (''user:'' @ email alice) cache0, store0)"
proof -
  have h: "get_user_username ''alice'' store0 = Inr (Some alice)"
    by (simp add: sample_defs repo_defs)
  have e: "username alice = username alice"
    by simp
  from self_guard_every_action [OF h e, of Action_change_role]
    self_guard_every_action [OF h e, of Action_activate] h
  show ?thesis
    by simp
qed


subsection \<open>The registry of invalidated tokens\<close>

text \<open>A call of \<open>invalidate_token\<close> adds no token other than its own.\<close>

lemma invalidate_token_tokens:
  "set (invalid_tokens (snd (invalidate_token token db))) \<subseteq>
     insert token (set (invalid_tokens db))"
  by (auto simp: invalidate_token_def)

lemma revoke_all_absent:
  "t \<notin> set (invalid_tokens db) \<Longrightarrow> t \<notin> set tokens \<Longrightarrow>
     t \<notin> set (invalid_tokens (revoke_all tokens db))"
proof (induction tokens arbitrary: db)
  case Nil
  then show ?case
    by simp
next
  case (Cons a tokens)
  from Cons.prems have "t \<notin> set (invalid_tokens (snd (invalidate_token a db)))"
    using invalidate_token_tokens [of a db] by auto
  with Cons show ?case
    by simp
qed

lemma is_validate_token_absent:
  assumes "t \<notin> set (invalid_tokens db)"
  shows "is_validate_token t db = Inr False"
proof -
  from assms have "filter (\<lambda>x. x = t) (invalid_tokens db) = []"
    by (auto simp: filter_empty_conv)
  then show ?thesis
    by (simp add: is_validate_token_def scalar_one_or_none_def)
qed

text \<open>
  Against claim C4: on the empty registry the first \<open>invalidate_token\<close> of \<open>t\<close>
  succeeds and the second raises \<open>IntegrityError\<close>, the exception of the store, which
  is neither a return nor an \<open>HTTPException\<close>.
\<close>

theorem second_revoke_raises_integrity_error:
  "invalidate_token ''t'' empty_store = (Inr (), empty_store\<lparr>invalid_tokens := [''t'']\<rparr>) \<and>
   invalidate_token ''t'' (empty_store\<lparr>invalid_tokens := [''t'']\<rparr>) =
     (Inl IntegrityError, empty_store\<lparr>invalid_tokens := [''t'']\<rparr>) \<and>
   \<not> is_http_exception IntegrityError"
  by (simp add: invalidate_token_def token_insert_ok_def is_http_exception_def sample_defs)

text \<open>
  Claim C4, amended (revoking twice). After a call of \<open>invalidate_token\<close> that
  succeeds, \<open>is_validate_token\<close> returns True for the token, and a second call for the
  same token raises the store's \<open>IntegrityError\<close>, re-raised as it is, and leaves the
  registry as the first call left it.
\<close>

theorem revoke_then_revoked:
  assumes "invalidate_token token db = (Inr (), db')"
  shows "is_validate_token token db' = Inr True \<and>
         invalidate_token token db' = (Inl IntegrityError, db')"
proof -
  from assms have up: "\<not> store_down db" and fresh: "token \<notin> set (invalid_tokens db)"
    and db': "db' = db\<lparr>invalid_tokens := invalid_tokens db @ [token]\<rparr>"
    by (auto simp: invalidate_token_def token_insert_ok_def split: if_splits)
  from fresh have "filter (\<lambda>t. t = token) (invalid_tokens db) = []"
    by (auto simp: filter_empty_conv)
  then have "is_validate_token token db' = Inr True"
    by (simp add: db' is_validate_token_def scalar_one_or_none_def)
  moreover have "invalidate_token token db' = (Inl IntegrityError, db')"
    using up by (simp add: db' invalidate_token_def token_insert_ok_def)
  ultimately show ?thesis
    by simp
qed

theorem revoke_then_revoked_witness:
  "invalidate_token ''t2'' store0 = (Inr (), store0\<lparr>invalid_tokens := [''t1'', ''t2'']\<rparr>) \<and>
   is_validate_token ''t2'' (store0\<lparr>invalid_tokens := [''t1'', ''t2'']\<rparr>) = Inr True \<and>
   invalidate_token ''t2'' (store0\<lparr>invalid_tokens := [''t1'', ''t2'']\<rparr>) =
     (Inl IntegrityError, store0\<lparr>invalid_tokens := [''t1'', ''t2'']\<rparr>)"
proof -
  have h: "invalidate_token ''t2'' store0 =
             (Inr (), store0\<lparr>invalid_tokens := [''t1'', ''t2'']\<rparr>)"
    by (simp add: invalidate_token_def token_insert_ok_def sample_defs)
  from revoke_then_revoked [OF h] h show ?thesis
    by simp
qed

text \<open>
  Claim C8 (a token that was never revoked). Starting from a registry that does not
  hold the token, after any sequence of calls of \<open>invalidate_token\<close> for other tokens,
  \<open>is_validate_token\<close> returns False: it does not raise. The query has no session
  among its results, as the source executes a SELECT only.
\<close>

theorem never_revoked_is_not_revoked:
  assumes "token \<notin> set (invalid_tokens db)" and "token \<notin> set tokens"
  shows "is_validate_token token (revoke_all tokens db) = Inr False"
  using assms by (simp add: revoke_all_absent is_validate_token_absent)

theorem never_revoked_is_not_revoked_witness:
  "''z'' \<notin> set (invalid_tokens store0) \<and> ''z'' \<notin> set [''a'', ''b'', ''a''] \<and>
   invalid_tokens (revoke_all [''a'', ''b'', ''a''] store0) = [''t1'', ''a'', ''b''] \<and>
   is_validate_token ''z'' (revoke_all [''a'', ''b'', ''a''] store0) = Inr False"
proof -
  have h1: "''z'' \<notin> set (invalid_tokens store0)"
    by (simp add: sample_defs)
  have h2: "''z'' \<notin> set [''a'', ''b'', ''a'']"
    by simp
  have r: "invalid_tokens (revoke_all [''a'', ''b'', ''a''] store0) = [''t1'', ''a'', ''b'']"
    by (simp add: invalidate_token_def token_insert_ok_def sample_defs)
  from never_revoked_is_not_revoked [OF h1 h2] h1 h2 r show ?thesis
    by simp
qed

subsection \<open>Registration\<close>

text \<open>
  Claim C9 (the role of a new user). When the store accepts the insertion,
  \<open>create_user\<close> returns the new row and appends it to the users table; its role is
  admin when the table was empty and user, the default, when the table held a row.
\<close>

theorem create_user_role:
  assumes "\<not> store_down db"
    and "body_email body \<notin> set (map email (users db))"
    and "body_username body \<notin> set (map username (users db))"
  shows "\<exists>new_user.
           create_user body db = (Inr new_user, db\<lparr>users := users db @ [new_user]\<rparr>) \<and>
           username new_user = body_username body \<and> email new_user = body_email body \<and>
           roles new_user = (if users db = [] then Role_admin else Role_user)"
  using assms
  by (cases "users db")
    (simp_all add: create_user_def user_insert_ok_def default_roles_def Let_def)

theorem create_user_role_witness:
  "\<not> store_down empty_store \<and>
   body_email dave \<notin> set (map email (users empty_store)) \<and>
   body_username dave \<notin> set (map username (users empty_store)) \<and>
   (\<exists>new_user.
      create_user dave empty_store =
        (Inr new_user, empty_store\<lparr>users := users empty_store @ [new_user]\<rparr>) \<and>
      roles new_user = Role_admin) \<and>
   \<not> store_down store0 \<and>
   body_email dave \<notin> set (map email (users store0)) \<and>
   body_username dave \<notin> set (map username (users store0)) \<and>
   (\<exists>new_user.
      create_user dave store0 = (Inr new_user, store0\<lparr>users := users store0 @ [new_user]\<rparr>) \<and>
      roles new_user = Role_user)"
proof -
  have a1: "\<not> store_down empty_store"
    and a2: "body_email dave \<notin> set (map email (users empty_store))"
    and a3: "body_username dave \<notin> set (map username (users empty_store))"
    by (simp_all add: sample_defs)
  have b1: "\<not> store_down store0"
    and b2: "body_email dave \<notin> set (map email (users store0))"
    and b3: "body_username dave \<notin> set (map username (users store0))"
    by (simp_all add: sample_defs)
  have e: "users empty_store = []" and n: "users store0 \<noteq> []"
    by (simp_all add: sample_defs)
  from create_user_role [OF a1 a2 a3] e
  have "\<exists>new_user.
      create_user dave empty_store =
        (Inr new_user, empty_store\<lparr>users := users empty_store @ [new_user]\<rparr>) \<and>
      roles new_user = Role_admin"
    by auto
  moreover from create_user_role [OF b1 b2 b3] n
  have "\<exists>new_user.
      create_user dave store0 = (Inr new_user, store0\<lparr>users := users store0 @ [new_user]\<rparr>) \<and>
      roles new_user = Role_user"
    by auto
  ultimately show ?thesis
    using a1 a2 a3 b1 b2 b3 by simp
qed

subsection \<open>Ratings\<close>

text \<open>
  Claim C3 (the mean of no ratings). For a picture without a rating the route
  \<open>picture_ratings\<close> returns, and does not raise: the count is 0 and the mean is None.
\<close>

theorem picture_ratings_no_ratings:
  assumes "filter (\<lambda>r. rating_picture_id r = picture_id) (ratings db) = []"
  shows "picture_ratings picture_id db = Inr \<lparr>average = None, count = 0\<rparr>"
  using assms by (simp add: picture_ratings_def repository_rating_picture_ratings_def)

theorem picture_ratings_no_ratings_witness:
  "filter (\<lambda>r. rating_picture_id r = 5) (ratings store0) = [] \<and>
   picture_ratings 5 store0 = Inr \<lparr>average = None, count = 0\<rparr>"
proof -
  have h: "filter (\<lambda>r. rating_picture_id r = 5) (ratings store0) = []"
    by (simp add: sample_defs)
  from picture_ratings_no_ratings [OF h] h show ?thesis
    by simp
qed

text \<open>A picture with one rating of 4 has the mean 4 and the count 1.\<close>

lemma picture_ratings_one_rating:
  "picture_ratings 3 store0 = Inr \<lparr>average = Some 4, count = 1\<rparr>"
  by (simp add: picture_ratings_def repository_rating_picture_ratings_def sample_defs)

text \<open>
  Claim C6 (removing a rating that does not exist). For a pair of picture and user
  without a rating, \<open>remove_photo_rating\<close> fails with \<open>NotFound\<close>, and the session is
  as it was: nothing is deleted.
\<close>

theorem remove_photo_rating_missing:
  assumes "List.find (\<lambda>r. rating_picture_id r = picture_id \<and> rating_user_id r = user_id)
             (ratings db) = None"
  shows "remove_photo_rating picture_id user_id db = (Inl NotFound, db)"
  using assms
  by (simp add: remove_photo_rating_def repository_rating_remove_rating_def)

theorem remove_photo_rating_missing_witness:
  "List.find (\<lambda>r. rating_picture_id r = 3 \<and> rating_user_id r = 8) (ratings store0) = None \<and>
   remove_photo_rating 3 8 store0 = (Inl NotFound, store0)"
proof -
  have h: "List.find (\<lambda>r. rating_picture_id r = 3 \<and> rating_user_id r = 8) (ratings store0)
             = None"
    by (simp add: sample_defs)
  from remove_photo_rating_missing [OF h] h show ?thesis
    by simp
qed

text \<open>A rating that exists is removed and returned.\<close>

lemma remove_photo_rating_present:
  "remove_photo_rating 3 7 store0 =
     (Inr \<lparr>rating_user_id = 7, rating_picture_id = 3, rate = 4\<rparr>, store0\<lparr>ratings := []\<rparr>)"
  by (simp add: remove_photo_rating_def repository_rating_remove_rating_def sample_defs)

end
